theory Spec2Isabelle
  imports Main "HOL-Library.Sublist"
begin

section \<open>Tenant registry\<close>

text \<open>
  \<^verbatim>\<open>tenants/models.py\<close>: the \<^verbatim>\<open>Tenant\<close> model, with the fields that tenant
  resolution, the lifecycle actions and the schema commands read or write.
\<close>

datatype SubscriptionStatus = ACTIVE | TRIAL | SUSPENDED | CANCELLED | EXPIRED

record Tenant =
  pk :: int
  name :: string
  code :: string
  schema_name :: string
  is_active :: bool
  subscription_status :: SubscriptionStatus

datatype exn =
    DoesNotExist
  | MultipleObjectsReturned
  | ValueError
  | TenantNotFound
  | Http404
  | EOFError
  | DuplicateSchema
  | InvalidSchemaName
  | UndefinedTable
  | SyntaxError
  | ReservedName
  | ModuleNotFoundError
  | MigrateFailed

text \<open>
  \<^verbatim>\<open>Tenant.objects.get(...)\<close>: the one row matching the lookup, \<^verbatim>\<open>DoesNotExist\<close>
  when there is none, \<^verbatim>\<open>MultipleObjectsReturned\<close> when there are several.
\<close>

definition objects_get :: "(Tenant \<Rightarrow> bool) \<Rightarrow> Tenant list \<Rightarrow> exn + Tenant" where
  "objects_get P rows =
     (case filter P rows of
        [] \<Rightarrow> Inl DoesNotExist
      | [t] \<Rightarrow> Inr t
      | _ # _ # _ \<Rightarrow> Inl MultipleObjectsReturned)"

section \<open>Python's int() on a header value\<close>

text \<open>
  \<^verbatim>\<open>int(tenant_id)\<close> on a string. A header value is a string of Latin-1 characters.
  Surrounding whitespace is skipped: tab, line feed, vertical tab, form feed, carriage
  return and space, and of the characters above ASCII the next-line and the no-break
  space; the separators U+001C to U+001F are not skipped. One sign is allowed, then
  decimal digits, where single underscores may stand between two digits. More than
  4300 digits (the interpreter's default limit) raise \<^verbatim>\<open>ValueError\<close>, as anything
  else does.
\<close>

definition is_space :: "char \<Rightarrow> bool" where
  "is_space c \<longleftrightarrow>
     c \<in> set [CHR 0x09, CHR 0x0A, CHR 0x0B, CHR 0x0C, CHR 0x0D, CHR 0x20, CHR 0x85, CHR 0xA0]"

definition strip :: "string \<Rightarrow> string" where
  "strip s = rev (dropWhile is_space (rev (dropWhile is_space s)))"

definition is_digit :: "char \<Rightarrow> bool" where
  "is_digit c \<longleftrightarrow> c \<in> set ''0123456789''"

definition digit_val :: "char \<Rightarrow> nat" where
  "digit_val c = (of_char c :: nat) - 48"

fun parse_digits :: "string \<Rightarrow> nat \<Rightarrow> nat option" where
  "parse_digits [] acc = Some acc"
| "parse_digits (c # cs) acc =
     (if is_digit c then parse_digits cs (acc * 10 + digit_val c)
      else if c = CHR ''_'' then
        (case cs of
           [] \<Rightarrow> None
         | d # _ \<Rightarrow> if is_digit d then parse_digits cs acc else None)
      else None)"

definition int_max_str_digits :: nat where
  "int_max_str_digits = 4300"

definition parse_unsigned :: "string \<Rightarrow> exn + nat" where
  "parse_unsigned body =
     (case body of
        [] \<Rightarrow> Inl ValueError
      | d # _ \<Rightarrow>
          if is_digit d \<and> length (filter is_digit body) \<le> int_max_str_digits then
            (case parse_digits body 0 of None \<Rightarrow> Inl ValueError | Some n \<Rightarrow> Inr n)
          else Inl ValueError)"

definition py_int :: "string \<Rightarrow> exn + int" where
  "py_int s =
     (case strip s of
        [] \<Rightarrow> Inl ValueError
      | c # cs \<Rightarrow>
          if c = CHR ''-'' then
            (case parse_unsigned cs of Inl e \<Rightarrow> Inl e | Inr n \<Rightarrow> Inr (- int n))
          else if c = CHR ''+'' then
            (case parse_unsigned cs of Inl e \<Rightarrow> Inl e | Inr n \<Rightarrow> Inr (int n))
          else
            (case parse_unsigned (c # cs) of Inl e \<Rightarrow> Inl e | Inr n \<Rightarrow> Inr (int n)))"

section \<open>The tenant middleware\<close>

text \<open>
  \<^verbatim>\<open>tenants/middleware.py\<close>. The state of one worker thread is the connection's
  active schema and the module's thread-local \<^verbatim>\<open>_thread_locals.tenant\<close>; both
  outlive a request.
\<close>

record worker =
  active_schema :: string
  thread_locals_tenant :: "Tenant option"

text \<open>
  Of \<^verbatim>\<open>request.user\<close>, what the method reads: \<^verbatim>\<open>is_authenticated\<close>, the attribute
  \<^verbatim>\<open>tenant_id\<close> (\<^verbatim>\<open>None\<close> when absent; an integer here) and the tenant of
  \<^verbatim>\<open>tenant_user\<close> (\<^verbatim>\<open>None\<close> when the attribute is absent or empty). Of the
  request: the path, the \<^verbatim>\<open>X-Tenant-ID\<close> header, the user (\<^verbatim>\<open>None\<close> when the
  request has none) and the host name the parent class looks up.
\<close>

record User =
  is_authenticated :: bool
  tenant_id :: "int option"
  tenant_user :: "Tenant option"

record request =
  path_info :: string
  X_Tenant_ID :: "string option"
  user :: "User option"
  hostname :: string

definition get_current_tenant :: "worker \<Rightarrow> Tenant option" where
  "get_current_tenant w = thread_locals_tenant w"

definition set_current_tenant :: "Tenant \<Rightarrow> worker \<Rightarrow> worker" where
  "set_current_tenant tenant w = w\<lparr>thread_locals_tenant := Some tenant\<rparr>"

text \<open>
  Modelled from the spec: the connection object belongs to the database backend, which
  is not part of the repository. \<^verbatim>\<open>connection.set_tenant(tenant)\<close> switches the
  active data-access namespace to the tenant's schema identifier, and
  \<^verbatim>\<open>connection.set_schema_to_public()\<close> switches it to the public namespace
  (\<^verbatim>\<open>PUBLIC_SCHEMA_NAME = 'public'\<close> in the settings).
\<close>

definition PUBLIC_SCHEMA_NAME :: string where
  "PUBLIC_SCHEMA_NAME = ''public''"

definition set_tenant :: "Tenant \<Rightarrow> worker \<Rightarrow> worker" where
  "set_tenant tenant w = w\<lparr>active_schema := schema_name tenant\<rparr>"

definition set_schema_to_public :: "worker \<Rightarrow> worker" where
  "set_schema_to_public w = w\<lparr>active_schema := PUBLIC_SCHEMA_NAME\<rparr>"

definition PUBLIC_SCHEMA_URLS :: "string list" where
  "PUBLIC_SCHEMA_URLS =
     [''/api/v1/auth/'',
      ''/api/v1/core/'',
      ''/api/v1/tenants/active-tenants/'',
      ''/api/v1/tenants/invitations/accept/'',
      ''/admin/'',
      ''/api/docs/'',
      ''/swagger/'',
      ''/redoc/'',
      ''/test-public/'']"

definition is_public :: "string \<Rightarrow> bool" where
  "is_public path = list_ex (\<lambda>url. prefix url path) PUBLIC_SCHEMA_URLS"

text \<open>
  Modelled from the spec: the parent class \<^verbatim>\<open>TenantMainMiddleware\<close> is not part
  of the repository. Its \<^verbatim>\<open>process_request\<close> is the hostname-based domain lookup
  against TenantDomain: on a match it resolves to that tenant and switches the active
  namespace to the tenant's schema; on no match it fails the request with a
  tenant-not-found error. The TenantDomain table is an association list from hostname
  to tenant.
\<close>

definition super_process_request ::
  "(string \<times> Tenant) list \<Rightarrow> request \<Rightarrow> worker \<Rightarrow> (exn + unit) \<times> worker" where
  "super_process_request domains req w =
     (case map_of domains (hostname req) of
        Some tenant \<Rightarrow> (Inr (), set_tenant tenant w)
      | None \<Rightarrow> (Inl TenantNotFound, w))"

text \<open>
  \<^verbatim>\<open>HeaderTenantMiddleware.process_request\<close>, step by step as the source has it.
  The result is \<^verbatim>\<open>Inr ()\<close> when the method returns and the request goes on to the
  downstream handlers, \<^verbatim>\<open>Inl e\<close> when it raises; the worker state is returned in
  both cases, since what was written before a raise stays written.
\<close>

definition caught :: "exn \<Rightarrow> bool" where
  \<comment> \<open>\<^verbatim>\<open>except (Tenant.DoesNotExist, ValueError): pass\<close>\<close>
  "caught e \<longleftrightarrow> e = DoesNotExist \<or> e = ValueError"

definition resolve_authenticated :: "Tenant list \<Rightarrow> User \<Rightarrow> worker \<Rightarrow> (exn + unit) \<times> worker" where
  "resolve_authenticated tenants u w =
     (let by_membership =
            (case tenant_user u of
               Some tenant \<Rightarrow> (Inr (), set_tenant tenant (set_current_tenant tenant w))
             | None \<Rightarrow> (Inr (), set_schema_to_public w))
      in case tenant_id u of
           None \<Rightarrow> by_membership
         | Some n \<Rightarrow>
             if n = 0 then by_membership
             else
               (case objects_get (\<lambda>t. pk t = n) tenants of
                  Inr tenant \<Rightarrow> (Inr (), set_tenant tenant (set_current_tenant tenant w))
                | Inl e \<Rightarrow> if caught e then by_membership else (Inl e, w)))"

definition resolve_after_test ::
  "Tenant list \<Rightarrow> (string \<times> Tenant) list \<Rightarrow> request \<Rightarrow> worker \<Rightarrow> (exn + unit) \<times> worker" where
  "resolve_after_test tenants domains req w =
     (case user req of
        None \<Rightarrow> super_process_request domains req w
      | Some u \<Rightarrow>
          if is_authenticated u then resolve_authenticated tenants u w
          else super_process_request domains req w)"

definition resolve_after_header ::
  "Tenant list \<Rightarrow> (string \<times> Tenant) list \<Rightarrow> request \<Rightarrow> worker \<Rightarrow> (exn + unit) \<times> worker" where
  "resolve_after_header tenants domains req w =
     (case objects_get (\<lambda>t. code t = ''TEST'') tenants of
        Inr tenant \<Rightarrow> (Inr (), set_tenant tenant (set_current_tenant tenant w))
      | Inl e \<Rightarrow>
          if e = DoesNotExist then resolve_after_test tenants domains req w
          else (Inl e, w))"

definition header_lookup :: "Tenant list \<Rightarrow> string \<Rightarrow> exn + Tenant" where
  \<comment> \<open>\<^verbatim>\<open>Tenant.objects.get(id=int(tenant_id))\<close>\<close>
  "header_lookup tenants h =
     (case py_int h of
        Inl e \<Rightarrow> Inl e
      | Inr n \<Rightarrow> objects_get (\<lambda>t. pk t = n) tenants)"

definition process_request ::
  "Tenant list \<Rightarrow> (string \<times> Tenant) list \<Rightarrow> request \<Rightarrow> worker \<Rightarrow> (exn + unit) \<times> worker" where
  "process_request tenants domains req w =
     (if is_public (path_info req) then (Inr (), set_schema_to_public w)
      else
        (case X_Tenant_ID req of
           None \<Rightarrow> resolve_after_header tenants domains req w
         | Some h \<Rightarrow>
             if h = [] then resolve_after_header tenants domains req w
             else
               (case header_lookup tenants h of
                  Inr tenant \<Rightarrow> (Inr (), set_tenant tenant (set_current_tenant tenant w))
                | Inl e \<Rightarrow>
                    if caught e then resolve_after_header tenants domains req w
                    else (Inl e, w))))"

text \<open>
  The class defines \<^verbatim>\<open>process_request\<close> only: no \<^verbatim>\<open>process_response\<close>, no
  \<^verbatim>\<open>process_exception\<close>, and no other code of the repository touches the worker
  state after the downstream handler. One request on a worker is therefore
  \<^verbatim>\<open>process_request\<close> followed, when it returned, by the downstream handler
  \<^verbatim>\<open>get_response\<close>.
\<close>

definition handle_request ::
  "Tenant list \<Rightarrow> (string \<times> Tenant) list \<Rightarrow> (request \<Rightarrow> worker \<Rightarrow> (exn + unit) \<times> worker)
     \<Rightarrow> request \<Rightarrow> worker \<Rightarrow> (exn + unit) \<times> worker" where
  "handle_request tenants domains get_response req w =
     (case process_request tenants domains req w of
        (Inl e, w') \<Rightarrow> (Inl e, w')
      | (Inr _, w') \<Rightarrow> get_response req w')"




section \<open>Lifecycle actions\<close>

text \<open>
  \<^verbatim>\<open>tenants/views.py\<close>, \<^verbatim>\<open>TenantViewSet.suspend\<close>, \<^verbatim>\<open>activate\<close> and
  \<^verbatim>\<open>cancel\<close>: each fetches the tenant with \<^verbatim>\<open>get_object()\<close> (a 404 when there
  is none), assigns the two fields and saves. The audit-log row each of them writes is
  left out.
\<close>

definition get_object :: "Tenant list \<Rightarrow> int \<Rightarrow> exn + Tenant" where
  "get_object rows k =
     (case objects_get (\<lambda>t. pk t = k) rows of
        Inl e \<Rightarrow> Inl (if e = DoesNotExist then Http404 else e)
      | Inr t \<Rightarrow> Inr t)"

definition save :: "Tenant \<Rightarrow> Tenant list \<Rightarrow> Tenant list" where
  "save t rows = map (\<lambda>r. if pk r = pk t then t else r) rows"

definition suspend :: "Tenant list \<Rightarrow> int \<Rightarrow> (exn + string) \<times> Tenant list" where
  "suspend rows k =
     (case get_object rows k of
        Inl e \<Rightarrow> (Inl e, rows)
      | Inr tenant \<Rightarrow>
          (Inr ''Tenant suspended successfully'',
           save (tenant\<lparr>subscription_status := SUSPENDED, is_active := False\<rparr>) rows))"

definition activate :: "Tenant list \<Rightarrow> int \<Rightarrow> (exn + string) \<times> Tenant list" where
  "activate rows k =
     (case get_object rows k of
        Inl e \<Rightarrow> (Inl e, rows)
      | Inr tenant \<Rightarrow>
          (Inr ''Tenant activated successfully'',
           save (tenant\<lparr>subscription_status := ACTIVE, is_active := True\<rparr>) rows))"

definition cancel :: "Tenant list \<Rightarrow> int \<Rightarrow> (exn + string) \<times> Tenant list" where
  "cancel rows k =
     (case get_object rows k of
        Inl e \<Rightarrow> (Inl e, rows)
      | Inr tenant \<Rightarrow>
          (Inr ''Tenant subscription cancelled'',
           save (tenant\<lparr>subscription_status := CANCELLED, is_active := False\<rparr>) rows))"

definition status_of :: "Tenant list \<Rightarrow> int \<Rightarrow> SubscriptionStatus list" where
  \<comment> \<open>the stored subscription status of the rows with primary key \<open>k\<close>\<close>
  "status_of rows k = map subscription_status (filter (\<lambda>t. pk t = k) rows)"

section \<open>Schema provisioning\<close>

text \<open>
  The database as the provisioning code sees it: the namespaces, the tables by
  namespace, and the session's search path. Names are stored as the database keeps
  them.
\<close>

record pg =
  schemas :: "string list"
  tables :: "(string \<times> string) list"
  search_path :: "string list"

text \<open>
  The code puts the tenant's schema name into the statement text as it is, unquoted.
  PostgreSQL reads such a text as a name only when it is a plain identifier: a letter,
  an underscore or a character above ASCII, followed by such characters, digits or
  dollar signs, and not a reserved key word. It folds the name to lower case and keeps
  its first 63 bytes. With any other text in the place of the name the statement is not
  the one the code means; the model makes it a syntax error, as it is for a generated
  name such as \<^verbatim>\<open>tenant_st.1234\<close>.
\<close>

definition lower_char :: "char \<Rightarrow> char" where
  "lower_char c =
     (case map_of (zip ''ABCDEFGHIJKLMNOPQRSTUVWXYZ'' ''abcdefghijklmnopqrstuvwxyz'') c of
        Some d \<Rightarrow> d
      | None \<Rightarrow> c)"

definition lower :: "string \<Rightarrow> string" where
  "lower s = map lower_char s"

definition ident_start :: "char \<Rightarrow> bool" where
  "ident_start c \<longleftrightarrow>
     c \<in> set ''abcdefghijklmnopqrstuvwxyzABCDEFGHIJKLMNOPQRSTUVWXYZ_''
     \<or> 128 \<le> (of_char c :: nat)"

definition ident_part :: "char \<Rightarrow> bool" where
  "ident_part c \<longleftrightarrow> ident_start c \<or> is_digit c \<or> c = CHR ''$''"

definition reserved_words :: "string list" where
  "reserved_words =
     [''all'', ''analyse'', ''analyze'', ''and'', ''any'', ''array'', ''as'', ''asc'',
      ''asymmetric'', ''authorization'', ''binary'', ''both'', ''case'', ''cast'', ''check'',
      ''collate'', ''collation'', ''column'', ''concurrently'', ''constraint'', ''create'',
      ''cross'', ''current_catalog'', ''current_date'', ''current_role'', ''current_schema'',
      ''current_time'', ''current_timestamp'', ''current_user'', ''default'', ''deferrable'',
      ''desc'', ''distinct'', ''do'', ''else'', ''end'', ''except'', ''false'', ''fetch'',
      ''for'', ''foreign'', ''freeze'', ''from'', ''full'', ''grant'', ''group'', ''having'',
      ''ilike'', ''in'', ''initially'', ''inner'', ''intersect'', ''into'', ''is'', ''isnull'',
      ''join'', ''lateral'', ''leading'', ''left'', ''like'', ''limit'', ''localtime'',
      ''localtimestamp'', ''natural'', ''not'', ''notnull'', ''null'', ''offset'', ''on'',
      ''only'', ''or'', ''order'', ''outer'', ''overlaps'', ''placing'', ''primary'',
      ''references'', ''returning'', ''right'', ''select'', ''session_user'', ''similar'',
      ''some'', ''symmetric'', ''table'', ''tablesample'', ''then'', ''to'', ''trailing'',
      ''true'', ''union'', ''unique'', ''user'', ''using'', ''variadic'', ''verbose'',
      ''when'', ''where'', ''window'', ''with'']"

definition unquoted_name :: "string \<Rightarrow> exn + string" where
  "unquoted_name txt =
     (case txt of
        [] \<Rightarrow> Inl SyntaxError
      | c # cs \<Rightarrow>
          if ident_start c \<and> list_all ident_part cs \<and> lower txt \<notin> set reserved_words
          then Inr (take 63 (lower txt))
          else Inl SyntaxError)"

text \<open>
  The statements the code sends through \<^verbatim>\<open>cursor.execute\<close>, each with the text
  the code puts in the place of the schema name, read as PostgreSQL reads them.
  A namespace cannot be created under a name that begins with \<^verbatim>\<open>pg_\<close>. A plain
  \<^verbatim>\<open>CREATE SCHEMA\<close> fails on an existing namespace; with
  \<^verbatim>\<open>IF NOT EXISTS\<close> an existing namespace is a no-op. \<^verbatim>\<open>SET search_path\<close>
  accepts any name. \<^verbatim>\<open>CREATE TABLE IF NOT EXISTS\<close> creates in the first
  namespace of the search path that exists; a table of that name there is a no-op;
  otherwise every table named by a \<^verbatim>\<open>REFERENCES\<close> clause has to be found through
  the search path, or the statement fails. \<^verbatim>\<open>DROP SCHEMA IF EXISTS ... CASCADE\<close>
  removes the namespace with its tables. The columns and the other constraints of a
  table are not modelled.
\<close>

datatype sql =
    CREATE_SCHEMA_IF_NOT_EXISTS string
  | CREATE_SCHEMA string
  | SET_search_path_TO string
  | CREATE_TABLE_IF_NOT_EXISTS string "string list"
  | DROP_SCHEMA_IF_EXISTS_CASCADE string

definition creation_namespace :: "pg \<Rightarrow> string option" where
  "creation_namespace db = find (\<lambda>s. s \<in> set (schemas db)) (search_path db)"

definition visible :: "pg \<Rightarrow> string \<Rightarrow> bool" where
  \<comment> \<open>an unqualified table name resolves through the search path\<close>
  "visible db tbl \<longleftrightarrow>
     list_ex (\<lambda>s. s \<in> set (schemas db) \<and> (s, tbl) \<in> set (tables db)) (search_path db)"

fun execute :: "sql \<Rightarrow> pg \<Rightarrow> exn + pg" where
  "execute (CREATE_SCHEMA_IF_NOT_EXISTS txt) db =
     (case unquoted_name txt of
        Inl e \<Rightarrow> Inl e
      | Inr n \<Rightarrow>
          if prefix ''pg_'' n then Inl ReservedName
          else if n \<in> set (schemas db) then Inr db
          else Inr (db\<lparr>schemas := schemas db @ [n]\<rparr>))"
| "execute (CREATE_SCHEMA txt) db =
     (case unquoted_name txt of
        Inl e \<Rightarrow> Inl e
      | Inr n \<Rightarrow>
          if prefix ''pg_'' n then Inl ReservedName
          else if n \<in> set (schemas db) then Inl DuplicateSchema
          else Inr (db\<lparr>schemas := schemas db @ [n]\<rparr>))"
| "execute (SET_search_path_TO txt) db =
     (case unquoted_name txt of
        Inl e \<Rightarrow> Inl e
      | Inr n \<Rightarrow> Inr (db\<lparr>search_path := [n]\<rparr>))"
| "execute (CREATE_TABLE_IF_NOT_EXISTS tbl refs) db =
     (case creation_namespace db of
        None \<Rightarrow> Inl InvalidSchemaName
      | Some s \<Rightarrow>
          if (s, tbl) \<in> set (tables db) then Inr db
          else if list_all (visible db) refs
          then Inr (db\<lparr>tables := tables db @ [(s, tbl)]\<rparr>)
          else Inl UndefinedTable)"
| "execute (DROP_SCHEMA_IF_EXISTS_CASCADE txt) db =
     (case unquoted_name txt of
        Inl e \<Rightarrow> Inl e
      | Inr n \<Rightarrow>
          Inr (db\<lparr>schemas := filter (\<lambda>s. s \<noteq> n) (schemas db),
                   tables := filter (\<lambda>(s, _). s \<noteq> n) (tables db)\<rparr>))"

text \<open>
  A block of statements on one cursor: the first failure stops the block and
  propagates; what the earlier statements did stays (the connection autocommits).
\<close>

fun execute_all :: "sql list \<Rightarrow> pg \<Rightarrow> (exn + unit) \<times> pg" where
  "execute_all [] db = (Inr (), db)"
| "execute_all (q # qs) db =
     (case execute q db of
        Inl e \<Rightarrow> (Inl e, db)
      | Inr db' \<Rightarrow> execute_all qs db')"

text \<open>
  \<^verbatim>\<open>tenants/utils.py\<close>, \<^verbatim>\<open>create_tenant_schema(tenant)\<close>. The table it creates
  has the column \<^verbatim>\<open>tenant_id INTEGER NOT NULL REFERENCES tenants_tenant(id)\<close>, and
  it is created after the search path has been set to the tenant's schema alone.
\<close>

definition create_tenant_schema :: "Tenant \<Rightarrow> pg \<Rightarrow> (exn + string) \<times> pg" where
  "create_tenant_schema tenant db =
     (case execute_all
             [CREATE_SCHEMA_IF_NOT_EXISTS (schema_name tenant),
              SET_search_path_TO (schema_name tenant),
              CREATE_TABLE_IF_NOT_EXISTS ''tenants_tenantuser'' [''tenants_tenant''],
              SET_search_path_TO ''public''] db of
        (Inl e, db') \<Rightarrow> (Inl e, db')
      | (Inr _, db') \<Rightarrow> (Inr (schema_name tenant), db'))"

text \<open>
  The management commands. A command ends with a message on stdout or stderr, or with
  an exception. \<^verbatim>\<open>call_command('migrate', ...)\<close> is the framework's migration run,
  a parameter here: given the schema name it fails or changes the database. The
  command looks the namespace up with the schema name as a query parameter, so it
  compares the name as the tenant row has it.
\<close>

datatype message =
    Tenant_does_not_exist
  | Schema_already_exists
  | Successfully_created
  | Operation_cancelled
  | Successfully_deleted

definition create_tenant_schema_handle ::
  "Tenant list \<Rightarrow> (string \<Rightarrow> pg \<Rightarrow> exn + pg) \<Rightarrow> int \<Rightarrow> pg \<Rightarrow> (exn + message) \<times> pg" where
  "create_tenant_schema_handle tenants migrate k db =
     (case objects_get (\<lambda>t. pk t = k) tenants of
        Inl e \<Rightarrow> if e = DoesNotExist then (Inr Tenant_does_not_exist, db) else (Inl e, db)
      | Inr tenant \<Rightarrow>
          if schema_name tenant \<in> set (schemas db) then (Inr Schema_already_exists, db)
          else
            (case execute_all
                    [CREATE_SCHEMA (schema_name tenant),
                     SET_search_path_TO (schema_name tenant)] db of
               (Inl e, db1) \<Rightarrow> (Inl e, db1)
             | (Inr _, db1) \<Rightarrow>
                 (case migrate (schema_name tenant) db1 of
                    Inl e \<Rightarrow> (Inl e, db1)
                  | Inr db2 \<Rightarrow>
                      (case execute (SET_search_path_TO ''public'') db2 of
                         Inl e \<Rightarrow> (Inl e, db2)
                       | Inr db3 \<Rightarrow> (Inr Successfully_created, db3)))))"

text \<open>
  \<^verbatim>\<open>str.lower()\<close> on the operator's answer is \<open>lower\<close> above, for the ASCII
  letters; the answer is \<^verbatim>\<open>None\<close> when \<^verbatim>\<open>input()\<close> finds standard input
  closed and raises.
\<close>

definition delete_tenant_schema_handle ::
  "Tenant list \<Rightarrow> int \<Rightarrow> bool \<Rightarrow> string option \<Rightarrow> pg \<Rightarrow> (exn + message) \<times> pg" where
  "delete_tenant_schema_handle tenants k force answer db =
     (case objects_get (\<lambda>t. pk t = k) tenants of
        Inl e \<Rightarrow> if e = DoesNotExist then (Inr Tenant_does_not_exist, db) else (Inl e, db)
      | Inr tenant \<Rightarrow>
          (let drop =
                 (case execute (DROP_SCHEMA_IF_EXISTS_CASCADE (schema_name tenant)) db of
                    Inl e \<Rightarrow> (Inl e, db)
                  | Inr db' \<Rightarrow> (Inr Successfully_deleted, db'))
           in if \<not> force then
                (case answer of
                   None \<Rightarrow> (Inl EOFError, db)
                 | Some confirm \<Rightarrow>
                     if lower confirm \<noteq> ''yes'' then (Inr Operation_cancelled, db)
                     else drop)
              else drop))"

text \<open>
  The commands as the repository ships them. Both command modules begin with
  \<^verbatim>\<open>from apps.tenants.models import Tenant\<close>. The modules of the repository are the
  ones listed; there is no package \<^verbatim>\<open>apps\<close> (the model is \<^verbatim>\<open>tenants.models\<close>, and
  every other module imports it under that name), so loading a command module raises
  \<^verbatim>\<open>ModuleNotFoundError\<close> before \<^verbatim>\<open>handle\<close> can run.
\<close>

definition repository_modules :: "string list" where
  "repository_modules =
     [''billing.models'', ''billing.serializers'', ''billing.views'',
      ''clinical.models'', ''clinical.serializers'', ''clinical.urls'', ''clinical.views'',
      ''core.admin'', ''core.models'', ''core.permissions'', ''core.serializers'',
      ''core.urls'', ''core.views'',
      ''lab.models'', ''lab.serializers'', ''lab.urls'', ''lab.views'',
      ''patients.admin'', ''patients.models'', ''patients.serializers'', ''patients.views'',
      ''pharmacy.models'', ''pharmacy.serializers'', ''pharmacy.urls'', ''pharmacy.views'',
      ''scripts.add_tenant_domain'', ''scripts.setup_test_tenant'',
      ''smartcare_hms.settings'', ''smartcare_hms.urls'', ''smartcare_hms.urls_public'',
      ''tenants.admin'', ''tenants.authentication'', ''tenants.db_router'',
      ''tenants.management.commands.create_tenant_schema'',
      ''tenants.management.commands.delete_tenant_schema'',
      ''tenants.middleware'', ''tenants.models'', ''tenants.serializers'', ''tenants.urls'',
      ''tenants.utils'', ''tenants.views'', ''tenants_setup'',
      ''users.admin'', ''users.apps'', ''users.authentication'', ''users.managers'',
      ''users.models'', ''users.serializers'', ''users.urls'', ''users.views'']"

definition import_module :: "string \<Rightarrow> exn + unit" where
  "import_module m = (if m \<in> set repository_modules then Inr () else Inl ModuleNotFoundError)"

definition manage_create_tenant_schema ::
  "Tenant list \<Rightarrow> (string \<Rightarrow> pg \<Rightarrow> exn + pg) \<Rightarrow> int \<Rightarrow> pg \<Rightarrow> (exn + message) \<times> pg" where
  \<comment> \<open>\<^verbatim>\<open>python manage.py create_tenant_schema <tenant_id>\<close>\<close>
  "manage_create_tenant_schema tenants migrate k db =
     (case import_module ''apps.tenants.models'' of
        Inl e \<Rightarrow> (Inl e, db)
      | Inr _ \<Rightarrow> create_tenant_schema_handle tenants migrate k db)"


section \<open>The tenant context manager\<close>

text \<open>
  \<^verbatim>\<open>tenants/utils.py\<close>: here the current tenant is the attribute
  \<^verbatim>\<open>connection.tenant\<close>. The connection is the one of the backend that
  \<^verbatim>\<open>settings.py\<close> configures, \<^verbatim>\<open>django_tenants.postgresql_backend\<close>, which is not
  part of the repository. The model has the two attributes of it that the code reads
  and writes, and its method \<^verbatim>\<open>set_schema(name)\<close>: it makes \<open>name\<close> the
  connection's schema and installs as \<^verbatim>\<open>connection.tenant\<close> a placeholder, an
  object that carries the schema name and nothing else of a tenant. So the attribute
  holds a tenant row (the middleware's \<^verbatim>\<open>connection.set_tenant(tenant)\<close> puts it
  there), a placeholder, or nothing.
\<close>

datatype tenant_ref = Row Tenant | FakeTenant string

fun ref_schema_name :: "tenant_ref \<Rightarrow> string" where
  "ref_schema_name (Row t) = schema_name t"
| "ref_schema_name (FakeTenant n) = n"

record connection =
  conn_tenant :: "tenant_ref option"
  conn_schema :: string

definition set_schema :: "string \<Rightarrow> connection \<Rightarrow> connection" where
  "set_schema n c = c\<lparr>conn_tenant := Some (FakeTenant n), conn_schema := n\<rparr>"

definition utils_get_current_tenant :: "connection \<Rightarrow> tenant_ref option" where
  "utils_get_current_tenant c = conn_tenant c"

definition utils_set_current_tenant :: "tenant_ref option \<Rightarrow> connection \<Rightarrow> connection" where
  "utils_set_current_tenant t c =
     (case t of
        Some x \<Rightarrow> set_schema (ref_schema_name x) (c\<lparr>conn_tenant := t\<rparr>)
      | None \<Rightarrow> set_schema ''public'' (c\<lparr>conn_tenant := t\<rparr>))"

record TenantContext =
  self_tenant :: "tenant_ref option"
  old_tenant :: "tenant_ref option"

definition tenant_context :: "tenant_ref option \<Rightarrow> connection \<Rightarrow> TenantContext" where
  \<comment> \<open>\<^verbatim>\<open>__init__\<close>: the old tenant is read when the manager is built\<close>
  "tenant_context t c = \<lparr>self_tenant = t, old_tenant = utils_get_current_tenant c\<rparr>"

definition enter :: "TenantContext \<Rightarrow> connection \<Rightarrow> connection" where
  "enter cm c = utils_set_current_tenant (self_tenant cm) c"

definition exit :: "TenantContext \<Rightarrow> connection \<Rightarrow> connection" where
  "exit cm c = utils_set_current_tenant (old_tenant cm) c"

text \<open>
  \<^verbatim>\<open>with tenant_context(t): body\<close>. The body returns or raises and may leave the
  connection in any state; \<^verbatim>\<open>__exit__\<close> runs in both cases and returns nothing,
  so an exception of the body propagates after it.
\<close>

definition with_tenant_context ::
  "tenant_ref option \<Rightarrow> (connection \<Rightarrow> (exn + 'a) \<times> connection) \<Rightarrow> connection
     \<Rightarrow> (exn + 'a) \<times> connection" where
  "with_tenant_context t body c =
     (let cm = tenant_context t c;
          c1 = enter cm c;
          (r, c2) = body c1
      in (r, exit cm c2))"

section \<open>Example data\<close>

definition lagos_general :: Tenant where
  "lagos_general =
     \<lparr>pk = 3, name = ''Lagos General'', code = ''LAG0001'',
      schema_name = ''tenant_lag0001'', is_active = False, subscription_status = SUSPENDED\<rparr>"

definition abuja_clinic :: Tenant where
  "abuja_clinic =
     \<lparr>pk = 5, name = ''Abuja Clinic'', code = ''ABU0002'',
      schema_name = ''tenant_abu0002'', is_active = False, subscription_status = EXPIRED\<rparr>"

definition fresh_worker :: worker where
  "fresh_worker = \<lparr>active_schema = ''public'', thread_locals_tenant = None\<rparr>"

definition patients_request :: "string option \<Rightarrow> request" where
  "patients_request h =
     \<lparr>path_info = ''/api/v1/patients/'', X_Tenant_ID = h, user = None,
      hostname = ''localhost''\<rparr>"

definition login_request :: "string option \<Rightarrow> request" where
  "login_request h =
     \<lparr>path_info = ''/api/v1/auth/login/'', X_Tenant_ID = h, user = None,
      hostname = ''localhost''\<rparr>"



definition idle_handler :: "request \<Rightarrow> worker \<Rightarrow> (exn + unit) \<times> worker" where
  \<comment> \<open>a downstream handler that leaves the worker state alone\<close>
  "idle_handler req w = (Inr (), w)"

definition one_tenant_db :: pg where
  "one_tenant_db =
     \<lparr>schemas = [''public'', ''tenant_lag0001''],
      tables = [(''public'', ''tenants_tenant''), (''tenant_lag0001'', ''patients_patient'')],
      search_path = [''public'']\<rparr>"

definition empty_db :: pg where
  "empty_db =
     \<lparr>schemas = [''public''], tables = [(''public'', ''tenants_tenant'')],
      search_path = [''public'']\<rparr>"

definition half_created_db :: pg where
  \<comment> \<open>\<open>empty_db\<close> with the namespace of tenant 3, and the search path left on it\<close>
  "half_created_db =
     \<lparr>schemas = [''public'', ''tenant_lag0001''], tables = [(''public'', ''tenants_tenant'')],
      search_path = [''tenant_lag0001'']\<rparr>"

definition kano_db :: pg where
  \<comment> \<open>\<open>empty_db\<close> with the namespace of tenant 8, under the name the database gave it\<close>
  "kano_db =
     \<lparr>schemas = [''public'', ''tenant_kan''], tables = [(''public'', ''tenants_tenant'')],
      search_path = [''public'']\<rparr>"

definition mixed_case_tenant :: Tenant where
  \<comment> \<open>a tenant whose schema name was given with capital letters\<close>
  "mixed_case_tenant =
     \<lparr>pk = 8, name = ''Kano Hospital'', code = ''KAN0003'',
      schema_name = ''Tenant_KAN'', is_active = True, subscription_status = TRIAL\<rparr>"

definition dotted_tenant :: Tenant where
  \<comment> \<open>a tenant named \<^verbatim>\<open>St. Mary\<close>: the generated code is \<^verbatim>\<open>ST.\<close> and four digits\<close>
  "dotted_tenant =
     \<lparr>pk = 9, name = ''St. Mary'', code = ''ST.1234'',
      schema_name = ''tenant_st.1234'', is_active = True, subscription_status = TRIAL\<rparr>"

definition no_migrations :: "string \<Rightarrow> pg \<Rightarrow> exn + pg" where
  "no_migrations n db = Inr db"

definition passing_body :: "connection \<Rightarrow> (exn + unit) \<times> connection" where
  \<comment> \<open>a body that does nothing\<close>
  "passing_body c = (Inr (), c)"

definition lagos_connection :: connection where
  \<comment> \<open>the connection as the middleware leaves it for a request of tenant 3\<close>
  "lagos_connection =
     \<lparr>conn_tenant = Some (Row lagos_general), conn_schema = ''tenant_lag0001''\<rparr>"

section \<open>Facts about lookups and header parsing\<close>

lemma objects_get_Inr: "objects_get P rows = Inr t \<Longrightarrow> t \<in> set rows \<and> P t"
proof -
  assume "objects_get P rows = Inr t"
  then have "filter P rows = [t]"
    by (auto simp: objects_get_def split: list.splits)
  then have "t \<in> set (filter P rows)" by simp
  then show ?thesis by simp
qed

lemma py_int_Nil: "py_int [] = Inl ValueError"
  by (simp add: py_int_def strip_def)

lemma parse_unsigned_error: "parse_unsigned s = Inl e \<Longrightarrow> e = ValueError"
  by (auto simp: parse_unsigned_def split: list.splits if_splits option.splits)

lemma py_int_error: "py_int s = Inl e \<Longrightarrow> e = ValueError"
  by (auto simp: py_int_def split: list.splits if_splits sum.splits dest: parse_unsigned_error)

lemma not_public_patients: "\<not> is_public ''/api/v1/patients/''"
  by (simp add: is_public_def PUBLIC_SCHEMA_URLS_def)

lemma public_login: "is_public ''/api/v1/auth/login/''"
  by (simp add: is_public_def PUBLIC_SCHEMA_URLS_def)

lemma py_int_3: "py_int ''3'' = Inr 3"
  by (simp add: py_int_def strip_def is_space_def parse_unsigned_def is_digit_def digit_val_def
      int_max_str_digits_def)

lemma py_int_7: "py_int ''7'' = Inr 7"
  by (simp add: py_int_def strip_def is_space_def parse_unsigned_def is_digit_def digit_val_def
      int_max_str_digits_def)

lemma py_int_abc: "py_int ''abc'' = Inl ValueError"
  by (simp add: py_int_def strip_def is_space_def parse_unsigned_def is_digit_def digit_val_def)

section \<open>Public paths\<close>

text \<open>
  C2: on a path that starts with one of the public prefixes, the method switches the
  connection to the public schema and returns at once, whatever the tenant header, the
  user, the tenant table and the domain table hold; no later step runs.
\<close>

theorem public_path_resolves_public:
  assumes "is_public (path_info req)"
  shows "process_request tenants domains req w = (Inr (), set_schema_to_public w)
       \<and> active_schema (snd (process_request tenants domains req w)) = ''public''"
  using assms by (simp add: process_request_def set_schema_to_public_def PUBLIC_SCHEMA_NAME_def)

text \<open>
  The login path with the header of a tenant that does not exist: the outcome is the
  public schema.
\<close>

theorem public_path_resolves_public_witness:
  "is_public (path_info (login_request (Some ''7'')))
   \<and> process_request [lagos_general] [] (login_request (Some ''7'')) fresh_worker
       = (Inr (), set_schema_to_public fresh_worker)
   \<and> active_schema (snd (process_request [lagos_general] [] (login_request (Some ''7''))
         fresh_worker)) = ''public''"
proof -
  have 1: "is_public (path_info (login_request (Some ''7'')))"
    by (simp add: login_request_def public_login)
  show ?thesis
    using public_path_resolves_public [OF 1, of "[lagos_general]" "[]" fresh_worker] 1
    by blast
qed

section \<open>The tenant header\<close>

text \<open>
  C3: on a non-public path, a header whose value parses to the primary key of an
  existing tenant resolves to that tenant: the method returns, and when it returns the
  connection's active schema is the tenant's schema name (and the thread-local holds the
  tenant).
\<close>

theorem valid_header_resolves_tenant:
  assumes "\<not> is_public (path_info req)"
    and "X_Tenant_ID req = Some h"
    and "py_int h = Inr n"
    and "objects_get (\<lambda>t. pk t = n) tenants = Inr tenant"
  shows "process_request tenants domains req w =
           (Inr (), w\<lparr>thread_locals_tenant := Some tenant, active_schema := schema_name tenant\<rparr>)
         \<and> active_schema (snd (process_request tenants domains req w)) = schema_name tenant
         \<and> tenant \<in> set tenants \<and> pk tenant = n"
proof -
  from assms(3) have "h \<noteq> []" using py_int_Nil by auto
  with assms show ?thesis
    using objects_get_Inr[OF assms(4)]
    by (simp add: process_request_def header_lookup_def set_tenant_def set_current_tenant_def)
qed

theorem valid_header_resolves_tenant_witness:
  "\<not> is_public (path_info (patients_request (Some ''3'')))
   \<and> X_Tenant_ID (patients_request (Some ''3'')) = Some ''3''
   \<and> py_int ''3'' = Inr 3
   \<and> objects_get (\<lambda>t. pk t = 3) [lagos_general, abuja_clinic] = Inr lagos_general
   \<and> active_schema (snd (process_request [lagos_general, abuja_clinic] []
         (patients_request (Some ''3'')) fresh_worker)) = ''tenant_lag0001''"
proof -
  have 1: "\<not> is_public (path_info (patients_request (Some ''3'')))"
    by (simp add: patients_request_def not_public_patients)
  have 2: "X_Tenant_ID (patients_request (Some ''3'')) = Some ''3''"
    by (simp add: patients_request_def)
  have 4: "objects_get (\<lambda>t. pk t = 3) [lagos_general, abuja_clinic] = Inr lagos_general"
    by (simp add: objects_get_def lagos_general_def abuja_clinic_def)
  show ?thesis
    using valid_header_resolves_tenant [OF 1 2 py_int_3 4, of "[]" fresh_worker] 1 2 4 py_int_3
    by (simp add: lagos_general_def)
qed

text \<open>
  C4: on a non-public path, a header whose value does not parse (\<^verbatim>\<open>int\<close> raises
  \<^verbatim>\<open>ValueError\<close>) or parses to a key no tenant has (\<^verbatim>\<open>DoesNotExist\<close>) does not
  fail the request at that step: the method goes on with the next step, and its whole
  outcome is the outcome of the same request without the header.
\<close>

theorem invalid_header_falls_through:
  assumes "\<not> is_public (path_info req)"
    and "X_Tenant_ID req = Some h"
    and "py_int h = Inl ValueError
         \<or> (\<exists>n. py_int h = Inr n \<and> objects_get (\<lambda>t. pk t = n) tenants = Inl DoesNotExist)"
  shows "process_request tenants domains req w = resolve_after_header tenants domains req w
         \<and> process_request tenants domains req w
             = process_request tenants domains (req\<lparr>X_Tenant_ID := None\<rparr>) w"
proof -
  have a: "process_request tenants domains (req\<lparr>X_Tenant_ID := None\<rparr>) w
        = resolve_after_header tenants domains (req\<lparr>X_Tenant_ID := None\<rparr>) w"
    using assms(1) by (simp add: process_request_def)
  have b: "resolve_after_header tenants domains (req\<lparr>X_Tenant_ID := None\<rparr>) w
        = resolve_after_header tenants domains req w"
  proof -
    have "super_process_request domains (req\<lparr>X_Tenant_ID := None\<rparr>) w
        = super_process_request domains req w"
      by (simp add: super_process_request_def)
    then have "resolve_after_test tenants domains (req\<lparr>X_Tenant_ID := None\<rparr>) w
        = resolve_after_test tenants domains req w"
      by (simp add: resolve_after_test_def split: option.splits)
    then show ?thesis by (simp add: resolve_after_header_def split: sum.splits)
  qed
  have c: "process_request tenants domains req w = resolve_after_header tenants domains req w"
    using assms by (auto simp: process_request_def header_lookup_def caught_def)
  show ?thesis using a b c by simp
qed

theorem invalid_header_falls_through_witness:
  "\<not> is_public (path_info (patients_request (Some ''abc'')))
   \<and> py_int ''abc'' = Inl ValueError
   \<and> process_request [lagos_general] [] (patients_request (Some ''abc'')) fresh_worker
       = process_request [lagos_general] [] (patients_request None) fresh_worker"
proof -
  have 1: "\<not> is_public (path_info (patients_request (Some ''abc'')))"
    by (simp add: patients_request_def not_public_patients)
  have 2: "X_Tenant_ID (patients_request (Some ''abc'')) = Some ''abc''"
    by (simp add: patients_request_def)
  have 3: "py_int ''abc'' = Inl ValueError
         \<or> (\<exists>n. py_int ''abc'' = Inr n
               \<and> objects_get (\<lambda>t. pk t = n) [lagos_general] = Inl DoesNotExist)"
    by (simp add: py_int_abc)
  have e: "(patients_request (Some ''abc''))\<lparr>X_Tenant_ID := None\<rparr> = patients_request None"
    by (simp add: patients_request_def)
  have r: "process_request [lagos_general] [] (patients_request (Some ''abc'')) fresh_worker
       = process_request [lagos_general] [] (patients_request None) fresh_worker"
    using invalid_header_falls_through [OF 1 2 3, of "[]" fresh_worker] unfolding e
    by (rule conjunct2)
  show ?thesis
    using 1 py_int_abc r by (intro conjI)
qed

text \<open>
  C5: on a non-public path, with a header naming a tenant that does not exist, no
  authenticated user, no tenant with code TEST and no domain entry for the host, the
  request fails with the tenant-not-found error of the domain lookup; the method does not
  return and does not switch to the public schema.
\<close>

theorem unknown_header_no_fallback_fails:
  assumes "\<not> is_public (path_info req)"
    and "X_Tenant_ID req = Some h"
    and "py_int h = Inr n"
    and "objects_get (\<lambda>t. pk t = n) tenants = Inl DoesNotExist"
    and "\<forall>u. user req = Some u \<longrightarrow> \<not> is_authenticated u"
    and "objects_get (\<lambda>t. code t = ''TEST'') tenants = Inl DoesNotExist"
    and "map_of domains (hostname req) = None"
  shows "process_request tenants domains req w = (Inl TenantNotFound, w)"
proof -
  have "resolve_after_test tenants domains req w = super_process_request domains req w"
    using assms(5) by (simp add: resolve_after_test_def split: option.splits)
  then have "resolve_after_header tenants domains req w = (Inl TenantNotFound, w)"
    using assms(6,7) by (simp add: resolve_after_header_def super_process_request_def)
  moreover have "h \<noteq> []" using assms(3) py_int_Nil by auto
  ultimately show ?thesis
    using assms(1-4) by (simp add: process_request_def header_lookup_def caught_def)
qed

text \<open>
  The example of the spec: header 7, no tenant 7, path \<^verbatim>\<open>/api/v1/patients/\<close>, no user.
\<close>

theorem unknown_header_no_fallback_fails_witness:
  "\<not> is_public (path_info (patients_request (Some ''7'')))
   \<and> py_int ''7'' = Inr 7
   \<and> objects_get (\<lambda>t. pk t = 7) [lagos_general, abuja_clinic] = Inl DoesNotExist
   \<and> process_request [lagos_general, abuja_clinic] [] (patients_request (Some ''7'')) fresh_worker
       = (Inl TenantNotFound, fresh_worker)"
proof -
  have 1: "\<not> is_public (path_info (patients_request (Some ''7'')))"
    by (simp add: patients_request_def not_public_patients)
  have 2: "X_Tenant_ID (patients_request (Some ''7'')) = Some ''7''"
    by (simp add: patients_request_def)
  have 4: "objects_get (\<lambda>t. pk t = 7) [lagos_general, abuja_clinic] = Inl DoesNotExist"
    by (simp add: objects_get_def lagos_general_def abuja_clinic_def)
  have 5: "\<forall>u. user (patients_request (Some ''7'')) = Some u \<longrightarrow> \<not> is_authenticated u"
    by (simp add: patients_request_def)
  have 6: "objects_get (\<lambda>t. code t = ''TEST'') [lagos_general, abuja_clinic] = Inl DoesNotExist"
    by (simp add: objects_get_def lagos_general_def abuja_clinic_def)
  have 7: "map_of [] (hostname (patients_request (Some ''7''))) = (None :: Tenant option)"
    by simp
  show ?thesis
    using unknown_header_no_fallback_fails [OF 1 2 py_int_7 4 5 6 7, of fresh_worker] 1 4 py_int_7
    by simp
qed

section \<open>What one request leaves for the next\<close>

lemma super_fresh:
  "fst (super_process_request domains req w) = fst (super_process_request domains req w')
   \<and> (fst (super_process_request domains req w) = Inr () \<longrightarrow>
        active_schema (snd (super_process_request domains req w))
          = active_schema (snd (super_process_request domains req w')))"
  by (simp add: super_process_request_def set_tenant_def split: option.splits)

lemma authenticated_fresh:
  "fst (resolve_authenticated tenants u w) = fst (resolve_authenticated tenants u w')
   \<and> (fst (resolve_authenticated tenants u w) = Inr () \<longrightarrow>
        active_schema (snd (resolve_authenticated tenants u w))
          = active_schema (snd (resolve_authenticated tenants u w')))"
  by (simp add: resolve_authenticated_def Let_def set_tenant_def set_current_tenant_def
      set_schema_to_public_def split: option.splits sum.splits)

lemma after_test_fresh:
  "fst (resolve_after_test tenants domains req w) = fst (resolve_after_test tenants domains req w')
   \<and> (fst (resolve_after_test tenants domains req w) = Inr () \<longrightarrow>
        active_schema (snd (resolve_after_test tenants domains req w))
          = active_schema (snd (resolve_after_test tenants domains req w')))"
  using super_fresh[of domains req w w'] authenticated_fresh[of tenants _ w w']
  by (simp add: resolve_after_test_def split: option.splits)

lemma after_header_fresh:
  "fst (resolve_after_header tenants domains req w) = fst (resolve_after_header tenants domains req w')
   \<and> (fst (resolve_after_header tenants domains req w) = Inr () \<longrightarrow>
        active_schema (snd (resolve_after_header tenants domains req w))
          = active_schema (snd (resolve_after_header tenants domains req w')))"
  using after_test_fresh[of tenants domains req w w']
  by (simp add: resolve_after_header_def set_tenant_def set_current_tenant_def split: sum.splits)

lemma process_request_fresh:
  "fst (process_request tenants domains req w) = fst (process_request tenants domains req w')
   \<and> (fst (process_request tenants domains req w) = Inr () \<longrightarrow>
        active_schema (snd (process_request tenants domains req w))
          = active_schema (snd (process_request tenants domains req w')))"
  using after_header_fresh[of tenants domains req w w']
  by (simp add: process_request_def set_tenant_def set_current_tenant_def set_schema_to_public_def
      split: option.splits sum.splits)

lemma handle_request_idle:
  "handle_request tenants domains idle_handler req w = process_request tenants domains req w"
proof (cases "process_request tenants domains req w")
  case (Pair r w')
  then show ?thesis
    by (cases r) (simp_all add: handle_request_def idle_handler_def)
qed

lemma first_request_state:
  "process_request [lagos_general, abuja_clinic] [] (patients_request (Some ''3'')) fresh_worker
   = (Inr (), \<lparr>active_schema = ''tenant_lag0001'', thread_locals_tenant = Some lagos_general\<rparr>)"
proof -
  have "header_lookup [lagos_general, abuja_clinic] ''3'' = Inr lagos_general"
    by (simp add: header_lookup_def py_int_3 objects_get_def lagos_general_def abuja_clinic_def)
  then show ?thesis
    by (simp add: process_request_def patients_request_def not_public_patients
        set_tenant_def set_current_tenant_def fresh_worker_def lagos_general_def)
qed

text \<open>
  C1, as the code has it: whether \<^verbatim>\<open>process_request\<close> returns or raises does not
  depend on the state the worker was left in, and when it returns, the connection's
  active schema is the same from every prior state: it is set at the start of each
  request that goes through, from the request and the tables alone. Nothing runs after
  the downstream handler: with a handler that leaves the worker alone, the state after
  the request is the state \<^verbatim>\<open>process_request\<close> left.
\<close>

theorem process_request_sets_schema_afresh:
  "fst (process_request tenants domains req w') = fst (process_request tenants domains req w)
   \<and> (fst (process_request tenants domains req w) = Inr () \<longrightarrow>
        active_schema (snd (process_request tenants domains req w'))
          = active_schema (snd (process_request tenants domains req w)))
   \<and> snd (handle_request tenants domains idle_handler req w)
       = snd (process_request tenants domains req w)"
  using process_request_fresh[of tenants domains req w w'] handle_request_idle[of tenants domains req w]
  by simp


text \<open>
  A request for tenant 3 on a worker that the previous request left on tenant 5.
\<close>

theorem process_request_sets_schema_afresh_witness:
  "fst (process_request [lagos_general, abuja_clinic] [] (patients_request (Some ''3''))
          fresh_worker) = Inr ()
   \<and> active_schema (snd (process_request [lagos_general, abuja_clinic] []
         (patients_request (Some ''3''))
         \<lparr>active_schema = ''tenant_abu0002'', thread_locals_tenant = Some abuja_clinic\<rparr>))
       = ''tenant_lag0001''"
  using process_request_sets_schema_afresh
    [of "[lagos_general, abuja_clinic]" "[]" "patients_request (Some ''3'')"
        "\<lparr>active_schema = ''tenant_abu0002'', thread_locals_tenant = Some abuja_clinic\<rparr>"
        fresh_worker]
    first_request_state
  by simp

text \<open>
  C1 as stated fails: after a request resolved to tenant 3, handled to its end, the
  active schema is still the tenant's and the thread-local still holds the tenant; a
  following request on a public path still finds that tenant as the current tenant.
\<close>

theorem pointer_not_reset_counterexample:
  "active_schema (snd (handle_request [lagos_general, abuja_clinic] [] idle_handler
       (patients_request (Some ''3'')) fresh_worker)) \<noteq> ''public''
   \<and> thread_locals_tenant (snd (handle_request [lagos_general, abuja_clinic] [] idle_handler
       (patients_request (Some ''3'')) fresh_worker)) \<noteq> None
   \<and> get_current_tenant (snd (handle_request [lagos_general, abuja_clinic] [] idle_handler
       (login_request None)
       (snd (handle_request [lagos_general, abuja_clinic] [] idle_handler
          (patients_request (Some ''3'')) fresh_worker)))) = Some lagos_general"
proof -
  have a: "handle_request [lagos_general, abuja_clinic] [] idle_handler
       (patients_request (Some ''3'')) fresh_worker
     = (Inr (), \<lparr>active_schema = ''tenant_lag0001'', thread_locals_tenant = Some lagos_general\<rparr>)"
    by (simp add: handle_request_idle first_request_state)
  have b: "is_public (path_info (login_request None))"
    by (simp add: login_request_def public_login)
  have c: "handle_request [lagos_general, abuja_clinic] [] idle_handler (login_request None)
       \<lparr>active_schema = ''tenant_lag0001'', thread_locals_tenant = Some lagos_general\<rparr>
     = (Inr (), \<lparr>active_schema = ''public'', thread_locals_tenant = Some lagos_general\<rparr>)"
    unfolding handle_request_idle using b
    by (simp add: process_request_def set_schema_to_public_def PUBLIC_SCHEMA_NAME_def)
  show ?thesis
    unfolding a snd_conv c by (simp add: get_current_tenant_def)
qed


section \<open>Resolution and the subscription status\<close>












section \<open>Lifecycle transitions\<close>

lemma get_object_filter: "get_object rows k = Inr tenant \<Longrightarrow> filter (\<lambda>t. pk t = k) rows = [tenant]"
  by (auto simp: get_object_def objects_get_def split: list.splits)

lemma filter_save:
  "pk t = k \<Longrightarrow> filter (\<lambda>r. pk r = k) (save t rows) = map (\<lambda>_. t) (filter (\<lambda>r. pk r = k) rows)"
  by (induction rows) (auto simp: save_def)

lemma status_of_save:
  assumes "get_object rows k = Inr tenant" and "pk t = k"
  shows "status_of (save t rows) k = [subscription_status t]"
  using get_object_filter[OF assms(1)] filter_save[OF assms(2), of rows]
  by (simp add: status_of_def)

lemma get_object_pk: "get_object rows k = Inr tenant \<Longrightarrow> pk tenant = k"
proof -
  assume a: "get_object rows k = Inr tenant"
  have "tenant \<in> set (filter (\<lambda>t. pk t = k) rows)"
    using get_object_filter[OF a] by simp
  then show ?thesis by simp
qed

text \<open>
  C6, as the code has it: the three actions are unconditional. For every tenant that
  \<^verbatim>\<open>get_object\<close> finds, whatever its subscription status, \<^verbatim>\<open>activate\<close> succeeds
  and stores active, \<^verbatim>\<open>suspend\<close> succeeds and stores suspended, \<^verbatim>\<open>cancel\<close>
  succeeds and stores cancelled. No transition is rejected.
\<close>

theorem lifecycle_actions_unconditional:
  assumes "get_object rows k = Inr tenant"
  shows "fst (activate rows k) = Inr ''Tenant activated successfully''
       \<and> status_of (snd (activate rows k)) k = [ACTIVE]
       \<and> fst (suspend rows k) = Inr ''Tenant suspended successfully''
       \<and> status_of (snd (suspend rows k)) k = [SUSPENDED]
       \<and> fst (cancel rows k) = Inr ''Tenant subscription cancelled''
       \<and> status_of (snd (cancel rows k)) k = [CANCELLED]"
  using assms get_object_pk[OF assms]
  by (simp add: activate_def suspend_def cancel_def status_of_save)


lemma get_object_abuja: "get_object [lagos_general, abuja_clinic] 5 = Inr abuja_clinic"
  by (simp add: get_object_def objects_get_def lagos_general_def abuja_clinic_def)

theorem lifecycle_actions_unconditional_witness:
  "get_object [lagos_general, abuja_clinic] 5 = Inr abuja_clinic
   \<and> subscription_status abuja_clinic = EXPIRED
   \<and> status_of (snd (activate [lagos_general, abuja_clinic] 5)) 5 = [ACTIVE]
   \<and> status_of (snd (cancel [lagos_general, abuja_clinic] 5)) 5 = [CANCELLED]"
  using lifecycle_actions_unconditional [OF get_object_abuja] get_object_abuja
  by (simp add: abuja_clinic_def)

text \<open>
  C6 as stated fails: \<^verbatim>\<open>activate\<close> on an expired tenant is accepted and the stored
  status becomes active.
\<close>

theorem activate_expired_counterexample:
  "status_of [lagos_general, abuja_clinic] 5 = [EXPIRED]
   \<and> fst (activate [lagos_general, abuja_clinic] 5) = Inr ''Tenant activated successfully''
   \<and> status_of (snd (activate [lagos_general, abuja_clinic] 5)) 5 = [ACTIVE]"
proof -
  have "activate [lagos_general, abuja_clinic] 5
      = (Inr ''Tenant activated successfully'',
         save (abuja_clinic\<lparr>subscription_status := ACTIVE, is_active := True\<rparr>)
           [lagos_general, abuja_clinic])"
    by (simp add: activate_def get_object_abuja)
  then show ?thesis
    by (simp add: status_of_def save_def lagos_general_def abuja_clinic_def)
qed

section \<open>Creating a tenant's schema twice\<close>

lemma name_lagos: "unquoted_name ''tenant_lag0001'' = Inr ''tenant_lag0001''"
  by (simp add: unquoted_name_def ident_start_def ident_part_def is_digit_def lower_def
      lower_char_def reserved_words_def)

lemma name_public: "unquoted_name ''public'' = Inr ''public''"
  by (simp add: unquoted_name_def ident_start_def ident_part_def is_digit_def lower_def
      lower_char_def reserved_words_def)

lemma name_kano: "unquoted_name ''Tenant_KAN'' = Inr ''tenant_kan''"
  by (simp add: unquoted_name_def ident_start_def ident_part_def is_digit_def lower_def
      lower_char_def reserved_words_def)

lemma name_dotted: "unquoted_name ''tenant_st.1234'' = Inl SyntaxError"
  by (simp add: unquoted_name_def ident_start_def ident_part_def is_digit_def)

lemma create_tenant_schema_raises:
  assumes "unquoted_name (schema_name tenant) = Inr n"
    and "\<not> prefix ''pg_'' n"
    and "(n, ''tenants_tenantuser'') \<notin> set (tables db)"
    and "(n, ''tenants_tenant'') \<notin> set (tables db)"
  shows "create_tenant_schema tenant db =
           (Inl UndefinedTable,
            db\<lparr>schemas := (if n \<in> set (schemas db) then schemas db else schemas db @ [n]),
               search_path := [n]\<rparr>)"
  using assms
  by (simp add: create_tenant_schema_def creation_namespace_def visible_def)

lemma create_tenant_schema_raises_again:
  assumes "unquoted_name (schema_name tenant) = Inr n"
    and "\<not> prefix ''pg_'' n"
    and "(n, ''tenants_tenantuser'') \<notin> set (tables db)"
    and "(n, ''tenants_tenant'') \<notin> set (tables db)"
  shows "fst (create_tenant_schema tenant (snd (create_tenant_schema tenant db)))
           = Inl UndefinedTable"
  using assms
  by (simp add: create_tenant_schema_raises)

lemma create_tenant_schema_distinct:
  "distinct (schemas db) \<Longrightarrow> distinct (schemas (snd (create_tenant_schema tenant db)))"
  by (auto simp: create_tenant_schema_def creation_namespace_def split: sum.splits option.splits)

lemma objects_get_lagos: "objects_get (\<lambda>t. pk t = 3) [lagos_general] = Inr lagos_general"
  by (simp add: objects_get_def lagos_general_def)

lemma objects_get_kano: "objects_get (\<lambda>t. pk t = 8) [mixed_case_tenant] = Inr mixed_case_tenant"
  by (simp add: objects_get_def mixed_case_tenant_def)

lemma handle_mixed_case_first:
  "create_tenant_schema_handle [mixed_case_tenant] no_migrations 8 empty_db
     = (Inr Successfully_created, kano_db)"
  unfolding create_tenant_schema_handle_def objects_get_kano
  by (simp add: mixed_case_tenant_def name_kano name_public no_migrations_def empty_db_def
      kano_db_def)

lemma handle_mixed_case_second:
  "create_tenant_schema_handle [mixed_case_tenant] no_migrations 8 kano_db
     = (Inl DuplicateSchema, kano_db)"
  unfolding create_tenant_schema_handle_def objects_get_kano
  by (simp add: mixed_case_tenant_def name_kano kano_db_def)

lemma import_fails: "import_module ''apps.tenants.models'' = Inl ModuleNotFoundError"
  by (simp add: import_module_def repository_modules_def)

text \<open>
  C7 asks that provisioning be idempotent: a second call creates no duplicate namespace
  and completes without error. The code, on a database that has the tenant table in
  \<^verbatim>\<open>public\<close> and not yet the namespace of tenant 3: \<^verbatim>\<open>create_tenant_schema\<close>
  creates the namespace and then raises, because the table it goes on to create
  references \<^verbatim>\<open>tenants_tenant\<close>, which the search path it has just set does not
  reach; the second call finds the namespace, creates no duplicate, and raises again.
  The command of the same name raises while its module is loaded.
\<close>

theorem create_tenant_schema_fails_twice:
  "create_tenant_schema lagos_general empty_db = (Inl UndefinedTable, half_created_db)
   \<and> create_tenant_schema lagos_general half_created_db = (Inl UndefinedTable, half_created_db)
   \<and> manage_create_tenant_schema [lagos_general] no_migrations 3 empty_db
       = (Inl ModuleNotFoundError, empty_db)"
proof -
  have n: "unquoted_name (schema_name lagos_general) = Inr ''tenant_lag0001''"
    by (simp add: lagos_general_def name_lagos)
  have p: "\<not> prefix ''pg_'' ''tenant_lag0001''"
    by simp
  have 1: "create_tenant_schema lagos_general empty_db = (Inl UndefinedTable, half_created_db)"
    by (simp add: create_tenant_schema_raises[OF n p] empty_db_def half_created_db_def)
  have 2: "create_tenant_schema lagos_general half_created_db
      = (Inl UndefinedTable, half_created_db)"
    by (simp add: create_tenant_schema_raises[OF n p] half_created_db_def)
  have 3: "manage_create_tenant_schema [lagos_general] no_migrations 3 empty_db
       = (Inl ModuleNotFoundError, empty_db)"
    by (simp add: manage_create_tenant_schema_def import_fails)
  show ?thesis using 1 2 3 by simp
qed


section \<open>Deleting a tenant's schema\<close>

lemma lower_yes: "lower ''YES'' = ''yes''" "lower ''yes'' = ''yes''" "lower ''no'' \<noteq> ''yes''"
  by (simp_all add: lower_def lower_char_def)

lemma handle_keeps_without_force_or_yes:
  assumes "\<not> force" and "\<forall>a. answer = Some a \<longrightarrow> lower a \<noteq> ''yes''"
  shows "snd (delete_tenant_schema_handle tenants k force answer db) = db"
  using assms
  by (auto simp: delete_tenant_schema_handle_def Let_def split: sum.splits option.splits)

lemma handle_drops:
  assumes "objects_get (\<lambda>t. pk t = k) tenants = Inr tenant"
    and "unquoted_name (schema_name tenant) = Inr n"
    and "force \<or> (\<exists>a. answer = Some a \<and> lower a = ''yes'')"
  shows "delete_tenant_schema_handle tenants k force answer db
          = (Inr Successfully_deleted,
             db\<lparr>schemas := filter (\<lambda>s. s \<noteq> n) (schemas db),
                tables := filter (\<lambda>(s, _). s \<noteq> n) (tables db)\<rparr>)"
  using assms
  by (auto simp: delete_tenant_schema_handle_def Let_def)

lemma handle_force_lagos:
  "delete_tenant_schema_handle [lagos_general] 3 True None one_tenant_db
     = (Inr Successfully_deleted, empty_db)"
proof -
  have n: "unquoted_name (schema_name lagos_general) = Inr ''tenant_lag0001''"
    by (simp add: lagos_general_def name_lagos)
  show ?thesis
    by (simp add: handle_drops[OF objects_get_lagos n] one_tenant_db_def empty_db_def)
qed

lemma handle_dotted:
  "delete_tenant_schema_handle [dotted_tenant] 9 False (Some ''yes'') db = (Inl SyntaxError, db)"
proof -
  have "objects_get (\<lambda>t. pk t = 9) [dotted_tenant] = Inr dotted_tenant"
    by (simp add: objects_get_def dotted_tenant_def)
  moreover have "unquoted_name (schema_name dotted_tenant) = Inl SyntaxError"
    by (simp add: dotted_tenant_def name_dotted)
  ultimately show ?thesis
    by (simp add: delete_tenant_schema_handle_def lower_yes)
qed



section \<open>The tenant context manager and the current tenant\<close>

lemma get_after_set:
  "utils_get_current_tenant (utils_set_current_tenant t c)
     = Some (FakeTenant (case t of Some x \<Rightarrow> ref_schema_name x | None \<Rightarrow> ''public''))"
  by (simp add: utils_get_current_tenant_def utils_set_current_tenant_def set_schema_def
      split: option.splits)

lemma schema_after_set:
  "conn_schema (utils_set_current_tenant t c)
     = (case t of Some x \<Rightarrow> ref_schema_name x | None \<Rightarrow> ''public'')"
  by (simp add: utils_set_current_tenant_def set_schema_def split: option.splits)

lemma enter_never_sets_row:
  "utils_get_current_tenant (enter (tenant_context (Some (Row t)) c) c) \<noteq> Some (Row t)"
  by (simp add: enter_def tenant_context_def get_after_set)

lemma with_tenant_context_schema:
  "conn_schema (snd (with_tenant_context t body c))
     = (case utils_get_current_tenant c of Some x \<Rightarrow> ref_schema_name x | None \<Rightarrow> ''public'')
   \<and> utils_get_current_tenant (snd (with_tenant_context t body c))
     = Some (FakeTenant (case utils_get_current_tenant c of
                           Some x \<Rightarrow> ref_schema_name x | None \<Rightarrow> ''public''))
   \<and> fst (with_tenant_context t body c) = fst (body (enter (tenant_context t c) c))"
  by (simp add: with_tenant_context_def Let_def exit_def tenant_context_def get_after_set
      schema_after_set split: prod.splits)

text \<open>
  C10 asks that entering \<^verbatim>\<open>tenant_context(t)\<close> make \<open>t\<close> the current tenant and
  that leaving it restore the tenant found before. The code, on the connection the
  middleware leaves for tenant 3 and with the row of tenant 5 for \<open>t\<close>: inside the
  block the current tenant is a placeholder with the schema name of tenant 5, not the
  row; after the block it is a placeholder with the schema name of tenant 3, not the
  row that was there before.
\<close>

theorem tenant_context_loses_tenant:
  "utils_get_current_tenant lagos_connection = Some (Row lagos_general)
   \<and> utils_get_current_tenant
       (enter (tenant_context (Some (Row abuja_clinic)) lagos_connection) lagos_connection)
       = Some (FakeTenant ''tenant_abu0002'')
   \<and> utils_get_current_tenant
       (snd (with_tenant_context (Some (Row abuja_clinic)) passing_body lagos_connection))
       = Some (FakeTenant ''tenant_lag0001'')"
proof -
  have 1: "utils_get_current_tenant lagos_connection = Some (Row lagos_general)"
    by (simp add: utils_get_current_tenant_def lagos_connection_def)
  have 2: "utils_get_current_tenant
       (enter (tenant_context (Some (Row abuja_clinic)) lagos_connection) lagos_connection)
       = Some (FakeTenant ''tenant_abu0002'')"
    by (simp add: enter_def tenant_context_def get_after_set abuja_clinic_def)
  have 3: "utils_get_current_tenant
       (snd (with_tenant_context (Some (Row abuja_clinic)) passing_body lagos_connection))
       = Some (FakeTenant ''tenant_lag0001'')"
    by (simp add: with_tenant_context_schema 1 lagos_general_def)
  show ?thesis using 1 2 3 by simp
qed


end
